theory Spec2Isabelle
  imports Main
begin

section \<open>Python strings: whitespace, strip, split, join, slicing, encode\<close>

text \<open>
  A Python \<open>str\<close> is modelled as a \<open>string\<close> whose characters are the code points
  0..255 (code points above 255 are outside the model). \<open>py_isspace\<close> is
  \<open>str.isspace\<close> on one character of that range: TAB, LF, VT, FF, CR, the separators
  FS, GS, RS, US, the space, NEL (0x85) and the no-break space (0xA0).
\<close>

definition py_isspace :: "char \<Rightarrow> bool" where
  "py_isspace c =
     (let n = (of_char c :: nat)
      in (9 \<le> n \<and> n \<le> 13) \<or> (28 \<le> n \<and> n \<le> 32) \<or> n = 133 \<or> n = 160)"

text \<open>\<open>s.strip()\<close>: leading and trailing whitespace removed.\<close>

definition py_strip :: "string \<Rightarrow> string" where
  "py_strip s = rev (dropWhile py_isspace (rev (dropWhile py_isspace s)))"

text \<open>
  \<open>s.split()\<close> with no separator: the maximal runs of non-whitespace characters, in
  order. \<open>py_split_acc cur s\<close> scans \<open>s\<close> with the token read so far in \<open>cur\<close>.
\<close>

fun py_split_acc :: "string \<Rightarrow> string \<Rightarrow> string list" where
  "py_split_acc cur [] = (if cur = [] then [] else [cur])"
| "py_split_acc cur (c # cs) =
     (if py_isspace c
      then (if cur = [] then py_split_acc [] cs else cur # py_split_acc [] cs)
      else py_split_acc (cur @ [c]) cs)"

definition py_split :: "string \<Rightarrow> string list" where
  "py_split s = py_split_acc [] s"

text \<open>\<open>sep.join(xs)\<close>.\<close>

fun py_join :: "string \<Rightarrow> string list \<Rightarrow> string" where
  "py_join sep [] = []"
| "py_join sep [x] = x"
| "py_join sep (x # y # ys) = x @ sep @ py_join sep (y # ys)"

text \<open>
  \<open>s.encode()\<close>: UTF-8. A code point below 128 is one byte, a code point in 128..255
  is two bytes.
\<close>

definition utf8 :: "char \<Rightarrow> string" where
  "utf8 c =
     (let n = (of_char c :: nat)
      in if n < 128 then [c]
         else [char_of (192 + n div 64), char_of (128 + n mod 64)])"

definition encode :: "string \<Rightarrow> string" where
  "encode s = concat (map utf8 s)"


section \<open>Exceptions\<close>

text \<open>
  The exception classes the pipeline can meet. All of them derive from \<open>Exception\<close>;
  \<open>is_RequestException\<close> tells the subclasses of \<open>requests.exceptions.RequestException\<close>,
  the only class \<open>extract_data\<close> catches.
\<close>

datatype exn =
    ConnectionError
  | Timeout
  | InvalidURL
  | TooManyRedirects
  | HTTPError nat
  | ParserRejectedMarkup
  | AttributeError
  | OperationalError
  | IntegrityError
  | OtherError string

fun is_RequestException :: "exn \<Rightarrow> bool" where
  "is_RequestException ConnectionError = True"
| "is_RequestException Timeout = True"
| "is_RequestException InvalidURL = True"
| "is_RequestException TooManyRedirects = True"
| "is_RequestException (HTTPError _) = True"
| "is_RequestException _ = False"

section \<open>Data model\<close>

text \<open>
  The dictionary built by \<open>extract_data\<close>. The title is \<open>soup.title.string\<close>, which
  is \<open>None\<close> for a title element that does not hold exactly one string, hence the option.
\<close>

record raw =
  url :: string
  title :: "string option"
  content :: string
  timestamp :: string

text \<open>The dictionary built by \<open>transform_data\<close>: the same keys and \<open>data_hash\<close>.\<close>

record clean = raw +
  data_hash :: string

text \<open>A row of the table \<open>web_data\<close>: the five columns and the \<open>id\<close> column.\<close>

record stored = clean +
  rowid :: int

text \<open>
  The table \<open>web_data\<close> of one database file. \<open>CREATE TABLE IF NOT EXISTS\<close> leaves a
  table that is already there as it is, so the table records whether its \<open>url\<close> and
  \<open>data_hash\<close> columns carry the UNIQUE constraint. \<open>sequence\<close> is the AUTOINCREMENT
  counter of the table (the largest id ever used).
\<close>

record table =
  url_unique :: bool
  hash_unique :: bool
  rows :: "stored list"
  sequence :: int

datatype stage = Extract | Transform | Load

text \<open>
  What a call leaves behind besides its result: the log entries (\<open>Error m e\<close> is the
  message \<open>m\<close> followed by \<open>str(e)\<close>), and, for the call-count properties, the entry
  into each stage and each \<open>sqlite3.connect\<close>.
\<close>

datatype event =
    Called stage
  | Connected string
  | Info string
  | Error string exn

text \<open>
  The world outside the process: for every database file name the table \<open>web_data\<close>
  of that file (\<open>None\<close> when the file or the table does not exist), and the events so far.
\<close>

record world =
  files :: "string \<Rightarrow> table option"
  trace :: "event list"

definition emit :: "event \<Rightarrow> world \<Rightarrow> world" where
  "emit ev w = w\<lparr>trace := trace w @ [ev]\<rparr>"

text \<open>
  What the outside does during one call: the outcome of \<open>requests.get\<close> (an exception,
  or a response with its status code and body), the clock, and whether the storage engine
  fails (connect, execute or commit raising; the transaction is then rolled back).
\<close>

datatype http_result = GetRaises exn | Response nat string

record env =
  http :: http_result
  now :: string
  storage_fault :: "exn option"

text \<open>
  The parsed document as the code reads it: \<open>soup.title\<close> (absent, or a tag with its
  \<open>.string\<close>, which may be \<open>None\<close>) and \<open>soup.get_text()\<close>.
\<close>

datatype tag = Tag (tag_string: "string option")

record soup =
  soup_title :: "tag option"
  get_text :: string

text \<open>
  The library functions the code calls and the repository does not hold, as parameters:
  the markup parser \<open>BeautifulSoup(body, 'html.parser')\<close>, which may raise, and
  \<open>hashlib.md5(bytes).hexdigest()\<close>.
\<close>

record libs =
  BeautifulSoup :: "string \<Rightarrow> exn + soup"
  md5_hexdigest :: "string \<Rightarrow> string"

record scraper =
  db_name :: string

section \<open>The storage engine\<close>

text \<open>The table made by the CREATE TABLE statement of \<open>setup_database\<close>.\<close>

definition new_table :: table where
  "new_table = \<lparr>url_unique = True, hash_unique = True, rows = [], sequence = 0\<rparr>"

text \<open>
  A row conflicts with the new values when a UNIQUE column of the table holds the same
  value in both.
\<close>

definition conflicts :: "table \<Rightarrow> clean \<Rightarrow> stored \<Rightarrow> bool" where
  "conflicts t d r =
     ((url_unique t \<and> url r = url d) \<or> (hash_unique t \<and> data_hash r = data_hash d))"

text \<open>The row that holds the values of a record under a given id.\<close>

definition row_of :: "clean \<Rightarrow> int \<Rightarrow> stored" where
  "row_of d i = \<lparr>url = url d, title = title d, content = content d,
                 timestamp = timestamp d, data_hash = data_hash d, rowid = i\<rparr>"

definition max_rowid :: int where
  "max_rowid = 9223372036854775807"

definition largest_rowid :: "table \<Rightarrow> int" where
  "largest_rowid t = fold max (map rowid (rows t)) (sequence t)"

text \<open>
  \<open>INSERT OR REPLACE INTO web_data (title, content, url, timestamp, data_hash)\<close>:
  the rows in conflict are deleted and the new row is appended under a fresh id, one above
  the largest id ever used; when that was the largest possible id the statement fails.
\<close>

definition insert_or_replace :: "clean \<Rightarrow> table \<Rightarrow> exn + table" where
  "insert_or_replace d t =
     (let top = largest_rowid t
      in if top \<ge> max_rowid then Inl OperationalError
         else Inr (t\<lparr>rows := filter (\<lambda>r. \<not> conflicts t d r) (rows t) @ [row_of d (top + 1)],
                       sequence := top + 1\<rparr>))"

section \<open>WebScraper\<close>




text \<open>
  \<open>response.raise_for_status()\<close> of the requests library: it raises \<open>HTTPError\<close> for
  the status codes 400 to 599 and returns for every other one.
\<close>

definition raise_for_status :: "nat \<Rightarrow> exn + unit" where
  "raise_for_status status =
     (if 400 \<le> status \<and> status < 600 then Inl (HTTPError status) else Inr ())"

definition extract_body :: "libs \<Rightarrow> string \<Rightarrow> env \<Rightarrow> world \<Rightarrow> (exn + raw) \<times> world" where
  "extract_body L u e w =
     (let w1 = emit (Info (''Extracting data from: '' @ u)) w
      in case http e of
           GetRaises ex \<Rightarrow> (Inl ex, w1)
         | Response status body \<Rightarrow>
             (case raise_for_status status of
                Inl ex \<Rightarrow> (Inl ex, w1)
              | Inr _ \<Rightarrow>
                  (case BeautifulSoup L body of
                     Inl ex \<Rightarrow> (Inl ex, w1)
                   | Inr sp \<Rightarrow>
                       (Inr \<lparr>url = u,
                             title = (case soup_title sp of
                                        Some tg \<Rightarrow> tag_string tg
                                      | None \<Rightarrow> Some []),
                             content = take 1000 (get_text sp),
                             timestamp = now e\<rparr>,
                        emit (Info (''Successfully extracted data from: '' @ u)) w1))))"

definition extract_data ::
  "libs \<Rightarrow> scraper \<Rightarrow> string \<Rightarrow> env \<Rightarrow> world \<Rightarrow> (exn + raw option) \<times> world" where
  "extract_data L self u e w =
     (case extract_body L u e (emit (Called Extract) w) of
        (Inr data, w') \<Rightarrow> (Inr (Some data), w')
      | (Inl ex, w') \<Rightarrow>
          (if is_RequestException ex
           then (Inr None, emit (Error (''Failed to extract data from '' @ u @ '': '') ex) w')
           else (Inl ex, w')))"

definition transform_body :: "libs \<Rightarrow> raw \<Rightarrow> exn + clean" where
  "transform_body L data =
     (case title data of
        None \<Rightarrow> Inl AttributeError
      | Some t \<Rightarrow>
          (let cleaned_content = py_join '' '' (py_split (content data))
           in Inr \<lparr>url = url data,
                   title = Some (py_strip t),
                   content = cleaned_content,
                   timestamp = timestamp data,
                   data_hash = md5_hexdigest L (encode (url data @ take 100 cleaned_content))\<rparr>))"

definition transform_data ::
  "libs \<Rightarrow> scraper \<Rightarrow> raw option \<Rightarrow> world \<Rightarrow> (exn + clean option) \<times> world" where
  "transform_data L self data w =
     (let w0 = emit (Called Transform) w
      in case data of
           None \<Rightarrow> (Inr None, w0)
         | Some d \<Rightarrow>
             (case transform_body L d of
                Inr c \<Rightarrow>
                  (Inr (Some c), emit (Info (''Successfully transformed data for: '' @ url d)) w0)
              | Inl ex \<Rightarrow> (Inr None, emit (Error ''Transformation failed: '' ex) w0)))"

definition load_body :: "scraper \<Rightarrow> env \<Rightarrow> clean \<Rightarrow> world \<Rightarrow> (exn + unit) \<times> world" where
  "load_body self e d w =
     (let w1 = emit (Connected (db_name self)) w
      in case storage_fault e of
           Some ex \<Rightarrow> (Inl ex, w1)
         | None \<Rightarrow>
             (case files w1 (db_name self) of
                None \<Rightarrow> (Inl OperationalError, w1)
              | Some t \<Rightarrow>
                  (case insert_or_replace d t of
                     Inl ex \<Rightarrow> (Inl ex, w1)
                   | Inr t' \<Rightarrow>
                       (Inr (),
                        emit (Info (''Successfully loaded data for: '' @ url d))
                          (w1\<lparr>files := (files w1)(db_name self := Some t')\<rparr>)))))"

definition load_data ::
  "scraper \<Rightarrow> env \<Rightarrow> clean option \<Rightarrow> world \<Rightarrow> (exn + bool) \<times> world" where
  "load_data self e data w =
     (let w0 = emit (Called Load) w
      in case data of
           None \<Rightarrow> (Inr False, w0)
         | Some d \<Rightarrow>
             (case load_body self e d w0 of
                (Inr _, w') \<Rightarrow> (Inr True, w')
              | (Inl ex, w') \<Rightarrow> (Inr False, emit (Error ''Load operation failed: '' ex) w')))"

definition run_body ::
  "libs \<Rightarrow> scraper \<Rightarrow> string \<Rightarrow> env \<Rightarrow> world \<Rightarrow> (exn + bool) \<times> world" where
  "run_body L self u e w =
     (case extract_data L self u e w of
        (Inl ex, w1) \<Rightarrow> (Inl ex, w1)
      | (Inr None, w1) \<Rightarrow> (Inr False, w1)
      | (Inr (Some raw_data), w1) \<Rightarrow>
          (case transform_data L self (Some raw_data) w1 of
             (Inl ex, w2) \<Rightarrow> (Inl ex, w2)
           | (Inr None, w2) \<Rightarrow> (Inr False, w2)
           | (Inr (Some transformed_data), w2) \<Rightarrow> load_data self e (Some transformed_data) w2))"

definition run_pipeline ::
  "libs \<Rightarrow> scraper \<Rightarrow> string \<Rightarrow> env \<Rightarrow> world \<Rightarrow> (exn + bool) \<times> world" where
  "run_pipeline L self u e w =
     (case run_body L self u e w of
        (Inr success, w') \<Rightarrow> (Inr success, w')
      | (Inl ex, w') \<Rightarrow> (Inr False, emit (Error (''Pipeline failed for '' @ u @ '': '') ex) w'))"

section \<open>Auxiliary notions for the statements\<close>




text \<open>The events a call has added to the trace of the world it started from.\<close>

definition new_events :: "world \<Rightarrow> world \<Rightarrow> event list" where
  "new_events w w' = drop (length (trace w)) (trace w')"

section \<open>A sample environment\<close>

text \<open>
  Concrete values for the examples: a parser that knows four documents (one with a title,
  one with an empty title element, whose \<open>.string\<close> is \<open>None\<close>, one that the parser
  rejects, and any other body as plain text without title), and a stand-in for the digest
  that returns the bytes it is given.
\<close>

definition sample_parser :: "string \<Rightarrow> exn + soup" where
  "sample_parser body =
     (if body = ''<html><title>T</title><body>hello world</body></html>''
      then Inr \<lparr>soup_title = Some (Tag (Some ''T'')), get_text = ''Thello world''\<rparr>
      else if body = ''<html><title></title><body>hello</body></html>''
      then Inr \<lparr>soup_title = Some (Tag None), get_text = ''hello''\<rparr>
      else if body = ''<![foo[x]]>''
      then Inl ParserRejectedMarkup
      else Inr \<lparr>soup_title = None, get_text = body\<rparr>)"

definition sample_libs :: libs where
  "sample_libs = \<lparr>BeautifulSoup = sample_parser, md5_hexdigest = (\<lambda>bs. bs)\<rparr>"

definition sample_scraper :: scraper where
  "sample_scraper = \<lparr>db_name = ''web_data.db''\<rparr>"

definition empty_world :: world where
  "empty_world = \<lparr>files = (\<lambda>name. None), trace = []\<rparr>"

text \<open>The world after the constructor has run on an empty directory.\<close>

definition fresh_world :: world where
  "fresh_world = \<lparr>files = (\<lambda>name. if name = ''web_data.db'' then Some new_table else None),
                   trace = []\<rparr>"



definition sample_env :: "http_result \<Rightarrow> string \<Rightarrow> env" where
  "sample_env h t = \<lparr>http = h, now = t, storage_fault = None\<rparr>"

text \<open>One hundred characters without whitespace.\<close>

definition hundred :: string where
  "hundred = ''0123456789012345678901234567890123456789012345678901234567890123456789012345678901234567890123456789''"

definition sample_raw :: "string \<Rightarrow> raw" where
  "sample_raw c = \<lparr>url = ''https://example.test'', title = Some '' T '', content = c,
                   timestamp = ''2024-01-01T00:00:00''\<rparr>"



section \<open>Elementary facts\<close>

lemma files_emit: "files (emit ev w) = files w"
  by (simp add: emit_def)

section \<open>The orchestrator never raises\<close>

text \<open>
  C4. Whatever the HTTP endpoint, the parser and the storage engine do during the call,
  including an exception that \<open>extract_data\<close> lets through, \<open>run_pipeline\<close> returns a
  boolean: no exception reaches its caller. (Every exception of the model is an
  \<open>Exception\<close>, which the last \<open>except\<close> clause of \<open>run_pipeline\<close> catches.)
\<close>

theorem run_pipeline_never_raises:
  "\<exists>b. fst (run_pipeline L self u e w) = Inr b"
  by (auto simp: run_pipeline_def split: prod.splits sum.splits)

section \<open>The frame of transform\<close>

text \<open>
  C10. When \<open>transform_data\<close> succeeds on a record, the \<open>url\<close> and \<open>timestamp\<close> of the
  result are those of the input.
\<close>

theorem transform_frame:
  "fst (transform_data L self (Some r) w) = Inr (Some c) \<Longrightarrow>
     url c = url r \<and> timestamp c = timestamp r"
  by (auto simp: transform_data_def transform_body_def Let_def split: option.splits sum.splits)

theorem transform_frame_witness:
  "fst (transform_data sample_libs sample_scraper (Some (sample_raw ''a  b'')) empty_world)
     = Inr (Some \<lparr>url = ''https://example.test'', title = Some ''T'', content = ''a b'',
                   timestamp = ''2024-01-01T00:00:00'',
                   data_hash = ''https://example.testa b''\<rparr>)
   \<and> url \<lparr>url = ''https://example.test'', title = Some ''T'', content = ''a b'',
            timestamp = ''2024-01-01T00:00:00'', data_hash = ''https://example.testa b''\<rparr>
       = url (sample_raw ''a  b'')
   \<and> timestamp \<lparr>url = ''https://example.test'', title = Some ''T'', content = ''a b'',
                  timestamp = ''2024-01-01T00:00:00'',
                  data_hash = ''https://example.testa b''\<rparr>
       = timestamp (sample_raw ''a  b'')"
  using transform_frame [of sample_libs sample_scraper "sample_raw ''a  b''" empty_world
     "\<lparr>url = ''https://example.test'', title = Some ''T'', content = ''a b'',
       timestamp = ''2024-01-01T00:00:00'', data_hash = ''https://example.testa b''\<rparr>"]
  by (simp add: transform_data_def transform_body_def sample_libs_def sample_raw_def Let_def
        py_split_def py_strip_def py_isspace_def encode_def utf8_def)

section \<open>Whitespace normalization\<close>










section \<open>What transform returns\<close>

lemma transform_data_Some:
  "title r = Some t \<Longrightarrow>
   fst (transform_data L self (Some r) w) =
     Inr (Some \<lparr>url = url r, title = Some (py_strip t),
                 content = py_join '' '' (py_split (content r)),
                 timestamp = timestamp r,
                 data_hash = md5_hexdigest L
                   (encode (url r @ take 100 (py_join '' '' (py_split (content r)))))\<rparr>)"
  by (simp add: transform_data_def transform_body_def Let_def)

lemma transform_data_None_title:
  "title r = None \<Longrightarrow> fst (transform_data L self (Some r) w) = Inr None"
  by (simp add: transform_data_def transform_body_def Let_def)

lemma transform_data_succeeds:
  "fst (transform_data L self (Some r) w) = Inr (Some c) \<Longrightarrow>
   c = \<lparr>url = url r, title = map_option py_strip (title r),
                 content = py_join '' '' (py_split (content r)),
                 timestamp = timestamp r,
                 data_hash = md5_hexdigest L
                   (encode (url r @ take 100 (py_join '' '' (py_split (content r)))))\<rparr>
   \<and> title r \<noteq> None"
  by (cases "title r") (auto simp: transform_data_Some transform_data_None_title)




section \<open>The fingerprint\<close>

text \<open>
  C3. Two successful calls of \<open>transform_data\<close> on the same record give the same
  \<open>data_hash\<close>; so do two calls on records with the same url whose cleaned contents agree
  on their first 100 characters; the \<open>data_hash\<close> is the digest of the encoded
  concatenation of the url and the first 100 characters of the cleaned content, and the
  cleaned content is \<open>' '.join(content.split())\<close>.
\<close>

theorem fingerprint_determinism:
  assumes "fst (transform_data L self (Some r1) w1) = Inr (Some c1)"
      and "fst (transform_data L self (Some r2) w2) = Inr (Some c2)"
  shows "(r1 = r2 \<longrightarrow> data_hash c1 = data_hash c2)
       \<and> (url r1 = url r2 \<and> take 100 (content c1) = take 100 (content c2)
            \<longrightarrow> data_hash c1 = data_hash c2)
       \<and> data_hash c1 = md5_hexdigest L (encode (url r1 @ take 100 (content c1)))
       \<and> content c1 = py_join '' '' (py_split (content r1))"
  using transform_data_succeeds [OF assms(1)] transform_data_succeeds [OF assms(2)]
  by simp

theorem fingerprint_determinism_witness:
  "fst (transform_data sample_libs sample_scraper (Some (sample_raw (hundred @ ''  x''))) empty_world)
     = Inr (Some \<lparr>url = ''https://example.test'', title = Some ''T'', content = hundred @ '' x'',
                   timestamp = ''2024-01-01T00:00:00'',
                   data_hash = ''https://example.test'' @ hundred\<rparr>)
   \<and> fst (transform_data sample_libs sample_scraper (Some (sample_raw (hundred @ '' y z''))) fresh_world)
     = Inr (Some \<lparr>url = ''https://example.test'', title = Some ''T'', content = hundred @ '' y z'',
                   timestamp = ''2024-01-01T00:00:00'',
                   data_hash = ''https://example.test'' @ hundred\<rparr>)
   \<and> url (sample_raw (hundred @ ''  x'')) = url (sample_raw (hundred @ '' y z''))
   \<and> take 100 (hundred @ '' x'') = take 100 (hundred @ '' y z'')
   \<and> hundred @ '' x'' \<noteq> hundred @ '' y z''"
  using fingerprint_determinism [of sample_libs sample_scraper "sample_raw (hundred @ ''  x'')" empty_world
     "\<lparr>url = ''https://example.test'', title = Some ''T'', content = hundred @ '' x'',
                   timestamp = ''2024-01-01T00:00:00'',
                   data_hash = ''https://example.test'' @ hundred\<rparr>"
     "sample_raw (hundred @ '' y z'')" fresh_world
     "\<lparr>url = ''https://example.test'', title = Some ''T'', content = hundred @ '' y z'',
                   timestamp = ''2024-01-01T00:00:00'',
                   data_hash = ''https://example.test'' @ hundred\<rparr>"]
  by (simp add: transform_data_def transform_body_def sample_libs_def sample_raw_def Let_def
        py_split_def py_strip_def py_isspace_def encode_def utf8_def hundred_def)

section \<open>What extract and run return\<close>

lemma new_events_emit1: "new_events w (emit a w) = [a]"
  by (simp add: new_events_def emit_def)









lemma run_pipeline_extract_None:
  "fst (extract_data L self u e w) = Inr None \<Longrightarrow>
   run_pipeline L self u e w = (Inr False, snd (extract_data L self u e w))"
  by (cases "extract_data L self u e w") (simp add: run_pipeline_def run_body_def)



lemma run_pipeline_transform_None:
  "fst (extract_data L self u e w) = Inr (Some r) \<Longrightarrow>
   fst (transform_data L self (Some r) (snd (extract_data L self u e w))) = Inr None \<Longrightarrow>
   run_pipeline L self u e w =
     (Inr False, snd (transform_data L self (Some r) (snd (extract_data L self u e w))))"
  by (cases "extract_data L self u e w";
      cases "transform_data L self (Some r) (snd (extract_data L self u e w))")
     (simp add: run_pipeline_def run_body_def)


section \<open>Absent values\<close>

text \<open>
  C7. \<open>transform_data\<close> of an absent input is absent. \<open>load_data\<close> of an absent input
  is \<open>False\<close>, whatever the storage engine would do: no database file changes and the
  call connects to none (its only event is its own entry). Both reach the caller of
  \<open>run_pipeline\<close> as \<open>False\<close>: when \<open>extract_data\<close> returns an absent value, and when
  \<open>transform_data\<close> returns one for the extracted record.
\<close>

theorem null_propagation:
  "fst (transform_data L self None w) = Inr None
   \<and> fst (load_data self e None w) = Inr False
   \<and> files (snd (load_data self e None w)) = files w
   \<and> new_events w (snd (load_data self e None w)) = [Called Load]
   \<and> (fst (extract_data L self u e w) = Inr None \<longrightarrow>
        fst (run_pipeline L self u e w) = Inr False)
   \<and> (fst (extract_data L self u e w) = Inr (Some r)
        \<and> fst (transform_data L self (Some r) (snd (extract_data L self u e w))) = Inr None \<longrightarrow>
        fst (run_pipeline L self u e w) = Inr False)"
  by (simp add: transform_data_def load_data_def files_emit new_events_emit1
        run_pipeline_extract_None run_pipeline_transform_None)

theorem null_propagation_witness:
  "fst (extract_data sample_libs sample_scraper ''https://example.test''
          (sample_env (GetRaises Timeout) ''2024-01-01T00:00:00'') fresh_world) = Inr None
   \<and> fst (run_pipeline sample_libs sample_scraper ''https://example.test''
          (sample_env (GetRaises Timeout) ''2024-01-01T00:00:00'') fresh_world) = Inr False
   \<and> fst (extract_data sample_libs sample_scraper ''https://example.test''
          (sample_env (Response 200 ''<html><title></title><body>hello</body></html>'')
             ''2024-01-01T00:00:00'') fresh_world)
       = Inr (Some \<lparr>url = ''https://example.test'', title = None, content = ''hello'',
                     timestamp = ''2024-01-01T00:00:00''\<rparr>)
   \<and> fst (transform_data sample_libs sample_scraper
          (Some \<lparr>url = ''https://example.test'', title = None, content = ''hello'',
                     timestamp = ''2024-01-01T00:00:00''\<rparr>)
          (snd (extract_data sample_libs sample_scraper ''https://example.test''
             (sample_env (Response 200 ''<html><title></title><body>hello</body></html>'')
                ''2024-01-01T00:00:00'') fresh_world))) = Inr None
   \<and> fst (run_pipeline sample_libs sample_scraper ''https://example.test''
          (sample_env (Response 200 ''<html><title></title><body>hello</body></html>'')
             ''2024-01-01T00:00:00'') fresh_world) = Inr False"
  using null_propagation [of sample_libs sample_scraper fresh_world
          "sample_env (GetRaises Timeout) ''2024-01-01T00:00:00''" "''https://example.test''"]
        null_propagation [of sample_libs sample_scraper fresh_world
          "sample_env (Response 200 ''<html><title></title><body>hello</body></html>'')
             ''2024-01-01T00:00:00''" "''https://example.test''"
          "\<lparr>url = ''https://example.test'', title = None, content = ''hello'',
                     timestamp = ''2024-01-01T00:00:00''\<rparr>"]
  by (simp add: extract_data_def extract_body_def raise_for_status_def Let_def sample_env_def
        sample_libs_def sample_parser_def transform_data_def transform_body_def)

section \<open>Short circuit on a failed fetch\<close>




section \<open>Which failures extract contains\<close>




section \<open>What extract returns for a successful response\<close>




section \<open>The constructor\<close>






section \<open>Insert or replace\<close>










end
